theory Spec2Isabelle
  imports Main "HOL-Library.Sublist" "HOL-Library.Multiset"
begin

section \<open>The host\<close>

subsection \<open>Numbers\<close>

text \<open>
  A Number is \<open>NaN\<close>, an infinity (\<open>Infinity True\<close> is the negative one) or a finite
  value. \<open>Fin m e\<close> is the finite Number whose shortest decimal numeral that reads back
  to it is \<open>m \<times> 10\<^sup>e\<close>, with \<open>m\<close> not a multiple of ten; zero is \<open>Fin 0 0\<close>. These
  are the digits from which the language prints a Number. The two zeros, which this
  program cannot tell apart (both are falsy, both print as \<open>0\<close>), are one value.
\<close>

datatype jsnum = NaN | Infinity bool | Fin int int

fun isNaN :: "jsnum \<Rightarrow> bool" where
  "isNaN NaN = True"
| "isNaN _ = False"

text \<open>Truthiness of a Number: everything but \<open>NaN\<close> and zero.\<close>

fun truthyNum :: "jsnum \<Rightarrow> bool" where
  "truthyNum NaN = False"
| "truthyNum (Infinity _) = True"
| "truthyNum (Fin m e) = (m \<noteq> 0)"

text \<open>Unary minus.\<close>

fun neg :: "jsnum \<Rightarrow> jsnum" where
  "neg NaN = NaN"
| "neg (Infinity s) = Infinity (\<not> s)"
| "neg (Fin m e) = Fin (- m) e"

text \<open>The decimal digits of a natural number.\<close>

fun digitsOf :: "nat \<Rightarrow> string" where
  "digitsOf n =
     (if n < 10 then [char_of (48 + n)]
      else digitsOf (n div 10) @ [char_of (48 + n mod 10)])"

text \<open>\<open>String(x)\<close> for a Number \<open>x\<close> (the template literal \<open>${x}\<close>), in the
  notation of the language standard: \<open>k\<close> digits \<open>ds\<close>, decimal point after the
  \<open>n\<close>-th digit.\<close>

definition positiveToString :: "nat \<Rightarrow> int \<Rightarrow> string" where
  "positiveToString m e =
     (let ds = digitsOf m; k = int (length ds); n = k + e
      in if k \<le> n \<and> n \<le> 21 then ds @ replicate (nat (n - k)) CHR ''0''
         else if 0 < n \<and> n \<le> 21 then take (nat n) ds @ ''.'' @ drop (nat n) ds
         else if - 6 < n \<and> n \<le> 0 then ''0.'' @ replicate (nat (- n)) CHR ''0'' @ ds
         else
           (let ex = (if 0 \<le> n - 1 then ''+'' else ''-'') @ digitsOf (nat \<bar>n - 1\<bar>)
            in if k = 1 then ds @ ''e'' @ ex
               else take 1 ds @ ''.'' @ drop 1 ds @ ''e'' @ ex))"

fun numToString :: "jsnum \<Rightarrow> string" where
  "numToString NaN = ''NaN''"
| "numToString (Infinity s) = (if s then ''-Infinity'' else ''Infinity'')"
| "numToString (Fin m e) =
     (if m = 0 then ''0''
      else if m < 0 then ''-'' @ positiveToString (nat (- m)) e
      else positiveToString (nat m) e)"

subsection \<open>Functions of the language and of the date library\<close>

text \<open>
  A string is the list of its characters; text outside ASCII is taken in an encoding in
  which the ASCII characters stand for themselves and occur nowhere else (UTF-8), so that
  the program's own steps on strings (concatenation, comparison, \<open>includes\<close>, the split
  at a space, the deletion of the characters other than digits, \<open>.\<close> and \<open>-\<close>) act on
  the list as they act on the string.

  What the program calls and does not define is a parameter of the model, the record
  \<open>host\<close>:
  \<^item> \<open>toLowerCase\<close> is \<open>String.prototype.toLowerCase\<close>, with the case mapping of Unicode;
  \<^item> \<open>trim\<close> is \<open>String.prototype.trim\<close>, with the white space of Unicode;
  \<^item> \<open>parseFloat\<close> is the global \<open>parseFloat\<close>, with its rounding to binary64, its
    overflow to an infinity and its underflow to zero;
  \<^item> \<open>formatDate\<close> is \<open>format(parseISO(date), 'yyyy-MM-dd')\<close> of the date library, in the
    time zone of the session; \<open>None\<close> stands for the \<open>RangeError\<close> that \<open>format\<close>
    throws on the invalid date which \<open>parseISO\<close> returns for a string it cannot read.

  The theorems about all inputs hold for every host. The evaluations on concrete rows use
  \<open>asciiHost\<close>, defined below.
\<close>

record host =
  toLowerCase :: "string \<Rightarrow> string"
  trim :: "string \<Rightarrow> string"
  parseFloat :: "string \<Rightarrow> jsnum"
  formatDate :: "string \<Rightarrow> string option"

subsection \<open>Steps on strings that the program spells out\<close>

fun startsWith :: "string \<Rightarrow> string \<Rightarrow> bool" where
  "startsWith s [] = True"
| "startsWith [] (k # ks) = False"
| "startsWith (c # cs) (k # ks) = (c = k \<and> startsWith cs ks)"

text \<open>\<open>s.includes(k)\<close>: \<open>k\<close> occurs in \<open>s\<close> as a contiguous run of characters.\<close>

fun includesStr :: "string \<Rightarrow> string \<Rightarrow> bool" where
  "includesStr [] k = (k = [])"
| "includesStr (c # cs) k = (startsWith (c # cs) k \<or> includesStr cs k)"

text \<open>\<open>s.split(sep)\<close> for a one-character separator: never empty, \<open>"".split(' ')\<close>
  is \<open>[""]\<close>, and two adjacent separators enclose an empty piece.\<close>

fun split :: "char \<Rightarrow> string \<Rightarrow> string list" where
  "split sep [] = [[]]"
| "split sep (c # cs) =
     (if c = sep then [] # split sep cs
      else (case split sep cs of [] \<Rightarrow> [[c]] | p # ps \<Rightarrow> (c # p) # ps))"

fun join :: "string \<Rightarrow> string list \<Rightarrow> string" where
  "join sep [] = []"
| "join sep [p] = p"
| "join sep (p # q # ps) = p @ sep @ join sep (q # ps)"

text \<open>The digits \<open>0\<close> to \<open>9\<close> (the class \<open>0-9\<close> of the regular expression of line 165),
  and the number that a run of digits writes.\<close>

definition isDigit :: "char \<Rightarrow> bool" where
  "isDigit c = (let n = (of_char c :: nat) in 48 \<le> n \<and> n \<le> 57)"

definition digitVal :: "char \<Rightarrow> int" where
  "digitVal c = of_char c - 48"

definition digitsVal :: "string \<Rightarrow> int" where
  "digitsVal ds = foldl (\<lambda>a c. 10 * a + digitVal c) 0 ds"

subsection \<open>Objects\<close>

text \<open>
  A plain object with string values: its own properties in the order of their creation.
  Assigning to an existing key keeps the key's place; the key \<open>__proto__\<close> is the
  prototype accessor, and assigning a string to it creates no property.
\<close>

type_synonym obj = "(string \<times> string) list"

fun setProp :: "obj \<Rightarrow> string \<Rightarrow> string \<Rightarrow> obj" where
  "setProp [] k v = [(k, v)]"
| "setProp ((k', v') # ps) k v =
     (if k' = k then (k, v) # ps else (k', v') # setProp ps k v)"

definition assign :: "obj \<Rightarrow> string \<Rightarrow> string \<Rightarrow> obj" where
  "assign ob k v = (if k = ''__proto__'' then ob else setProp ob k v)"

definition getProp :: "obj \<Rightarrow> string \<Rightarrow> string option" where
  "getProp ob k = map_of ob k"

text \<open>An array index: the canonical decimal numeral of an integer below \<open>2\<^sup>3\<^sup>2 - 1\<close>.\<close>

fun isArrayIndex :: "string \<Rightarrow> bool" where
  "isArrayIndex [] = False"
| "isArrayIndex (c # cs) =
     (list_all isDigit (c # cs) \<and> (cs = [] \<or> c \<noteq> CHR ''0'')
      \<and> digitsVal (c # cs) < 4294967295)"

text \<open>\<open>for (const k in ob)\<close> visits the array-index keys first, in ascending numeric
  order, and then the other keys in the order of their creation.\<close>

definition forIn :: "obj \<Rightarrow> (string \<times> string) list" where
  "forIn ob =
     sort_key (\<lambda>p. digitsVal (fst p)) (filter (\<lambda>p. isArrayIndex (fst p)) ob)
     @ filter (\<lambda>p. \<not> isArrayIndex (fst p)) ob"

section \<open>The host on ASCII text\<close>

text \<open>
  \<open>asciiHost\<close> is the host of the evaluations on concrete rows. Its functions are those
  of the language where the evaluations use them, and only there:
  \<^item> \<open>asciiToLowerCase\<close> and \<open>asciiTrim\<close> are \<open>toLowerCase\<close> and \<open>trim\<close> on ASCII
    text (the letters \<open>A\<close> to \<open>Z\<close>; TAB, LF, VT, FF, CR and SPACE);
  \<^item> \<open>decimalParseFloat\<close> reads the longest prefix that is a decimal literal, at its
    decimal value: this is \<open>parseFloat\<close> for a literal of at most 15 significant digits
    whose value lies in the range of the normal binary64 numbers, and \<open>NaN\<close> where there is
    no literal;
  \<^item> \<open>isoCalendarDate\<close> returns a \<open>YYYY-MM-DD\<close> that names a day of the calendar as it
    is, and is \<open>None\<close> elsewhere: this is \<open>formatDate\<close> on such dates and on strings that
    are in no ISO 8601 form.
\<close>

definition asciiWhiteSpace :: "char \<Rightarrow> bool" where
  "asciiWhiteSpace c =
     (c \<in> set [CHR 0x09, CHR 0x0A, CHR 0x0B, CHR 0x0C, CHR 0x0D, CHR '' ''])"

definition asciiTrim :: "string \<Rightarrow> string" where
  "asciiTrim s = rev (dropWhile asciiWhiteSpace (rev (dropWhile asciiWhiteSpace s)))"

definition asciiLowerChar :: "char \<Rightarrow> char" where
  "asciiLowerChar c =
     (let n = (of_char c :: nat) in if 65 \<le> n \<and> n \<le> 90 then char_of (n + 32) else c)"

definition asciiToLowerCase :: "string \<Rightarrow> string" where
  "asciiToLowerCase s = map asciiLowerChar s"

text \<open>The finite Number \<open>m \<times> 10\<^sup>e\<close>, normalised.\<close>

function mkFin :: "int \<Rightarrow> int \<Rightarrow> jsnum" where
  "mkFin m e =
     (if m = 0 then Fin 0 0
      else if m mod 10 = 0 then mkFin (m div 10) (e + 1)
      else Fin m e)"
  by pat_completeness auto
termination
  by (relation "measure (\<lambda>(m, e). nat \<bar>m\<bar>)") auto

text \<open>An optional sign in front of a numeral: \<open>True\<close> for \<open>-\<close>.\<close>

fun signOf :: "string \<Rightarrow> bool \<times> string" where
  "signOf [] = (False, [])"
| "signOf (c # cs) =
     (if c = CHR ''-'' then (True, cs)
      else if c = CHR ''+'' then (False, cs)
      else (False, c # cs))"

text \<open>The exponent part that may follow the digits; a malformed one is not part of the
  numeral and counts as no exponent.\<close>

fun exponentPart :: "string \<Rightarrow> int" where
  "exponentPart [] = 0"
| "exponentPart (c # cs) =
     (if c = CHR ''e'' \<or> c = CHR ''E'' then
        (let (s, r) = signOf cs; ds = takeWhile isDigit r
         in if ds = [] then 0
            else if s then - digitsVal ds else digitsVal ds)
      else 0)"

text \<open>The fraction part: a point and the digits after it, and what follows.\<close>

fun fractionPart :: "string \<Rightarrow> string \<times> string" where
  "fractionPart [] = ([], [])"
| "fractionPart (c # cs) =
     (if c = CHR ''.'' then (takeWhile isDigit cs, dropWhile isDigit cs) else ([], c # cs))"

definition decimalParseFloat :: "string \<Rightarrow> jsnum" where
  "decimalParseFloat str =
     (let (s, u) = signOf (dropWhile asciiWhiteSpace str)
      in if startsWith u ''Infinity'' then Infinity s
         else
           (let ip = takeWhile isDigit u;
                (fp, r) = fractionPart (dropWhile isDigit u)
            in if ip = [] \<and> fp = [] then NaN
               else
                 (let m = digitsVal (ip @ fp);
                      e = exponentPart r - int (length fp)
                  in mkFin (if s then - m else m) e)))"

definition daysInMonth :: "int \<Rightarrow> int \<Rightarrow> int" where
  "daysInMonth y m =
     (if m = 2 then (if y mod 4 = 0 \<and> (y mod 400 = 0 \<or> y mod 100 \<noteq> 0) then 29 else 28)
      else if m \<in> set [4, 6, 9, 11] then 30 else 31)"

definition isoCalendarDate :: "string \<Rightarrow> string option" where
  "isoCalendarDate s =
     (let y = take 4 s; m = take 2 (drop 5 s); d = drop 8 s
      in if length s = 10 \<and> take 1 (drop 4 s) = ''-'' \<and> take 1 (drop 7 s) = ''-''
            \<and> list_all isDigit (y @ m @ d)
            \<and> 1 \<le> digitsVal m \<and> digitsVal m \<le> 12
            \<and> 1 \<le> digitsVal d \<and> digitsVal d \<le> daysInMonth (digitsVal y) (digitsVal m)
         then Some s else None)"

definition asciiHost :: host where
  "asciiHost =
     \<lparr>toLowerCase = asciiToLowerCase, trim = asciiTrim,
      parseFloat = decimalParseFloat, formatDate = isoCalendarDate\<rparr>"

section \<open>Import pipeline (\<open>parseCsv\<close>)\<close>

subsection \<open>Row normalizer\<close>

text \<open>
  A parsed row (\<open>header: true\<close>) is an object from column header to cell text; a column
  the row lacks reads as \<open>undefined\<close>, here \<open>None\<close>.
\<close>

type_synonym row = "(string \<times> string) list"

definition cell :: "row \<Rightarrow> string \<Rightarrow> string option" where
  "cell r k = map_of r k"

text \<open>Truthiness of a cell: present and not the empty string.\<close>

fun truthy :: "string option \<Rightarrow> bool" where
  "truthy None = False"
| "truthy (Some s) = (s \<noteq> [])"

text \<open>\<open>a || b || c || ''\<close>: the first truthy operand, the empty string when there is
  none.\<close>

fun firstTruthy :: "string option list \<Rightarrow> string" where
  "firstTruthy [] = []"
| "firstTruthy (None # cs) = firstTruthy cs"
| "firstTruthy (Some s # cs) = (if s \<noteq> [] then s else firstTruthy cs)"

text \<open>The constants \<open>date\<close> and \<open>description\<close> of lines 153 and 154.\<close>

definition resolveDate :: "row \<Rightarrow> string" where
  "resolveDate r =
     firstTruthy [cell r ''Date'', cell r ''Transaction Date'', cell r ''Posting Date'']"

definition resolveDescription :: "row \<Rightarrow> string" where
  "resolveDescription r =
     firstTruthy [cell r ''Description'', cell r ''Payee'', cell r ''Transaction Details'']"

text \<open>\<open>c && parseFloat(c)\<close> as a condition, with the number it lets through: the cell is
  a non-empty string and parses to a number that is neither \<open>NaN\<close> nor zero.\<close>

fun usable :: "host \<Rightarrow> string option \<Rightarrow> jsnum option" where
  "usable h None = None"
| "usable h (Some s) =
     (if s \<noteq> [] \<and> truthyNum (parseFloat h s) then Some (parseFloat h s) else None)"

text \<open>The value of \<open>amount\<close> after the debit/credit/else chain (source lines 155 to 166).
  The else branch deletes every character other than a digit, \<open>.\<close> and \<open>-\<close>.\<close>

definition resolveAmount :: "host \<Rightarrow> row \<Rightarrow> jsnum" where
  "resolveAmount h r =
     (let amount = firstTruthy [cell r ''Amount'', cell r ''Debit'', cell r ''Credit'']
      in case usable h (cell r ''Debit'') of
           Some d \<Rightarrow> neg d
         | None \<Rightarrow>
             (case usable h (cell r ''Credit'') of
                Some c \<Rightarrow> c
              | None \<Rightarrow>
                  parseFloat h
                    (filter (\<lambda>c. isDigit c \<or> c = CHR ''.'' \<or> c = CHR ''-'') amount)))"

subsection \<open>Categorizer\<close>

text \<open>The loop over the rule table, leaving at the first keyword that the lowercased
  description includes.\<close>

fun firstMatch :: "string \<Rightarrow> (string \<times> string) list \<Rightarrow> string" where
  "firstMatch lowerDescription [] = ''Uncategorized''"
| "firstMatch lowerDescription ((keyword, cat) # rest) =
     (if includesStr lowerDescription keyword then cat
      else firstMatch lowerDescription rest)"

definition categorize :: "host \<Rightarrow> obj \<Rightarrow> string \<Rightarrow> string" where
  "categorize h rules descr = firstMatch (toLowerCase h descr) (forIn rules)"

text \<open>The rule table is rebuilt from every snapshot of the rules collection
  (source lines 82 to 89).\<close>

record ruleDoc =
  keyword :: string
  ruleCategory :: string
  ruleUserId :: string

definition fetchRules :: "host \<Rightarrow> ruleDoc list \<Rightarrow> obj" where
  "fetchRules h docs =
     foldl (\<lambda>fetchedRules rule.
              assign fetchedRules (toLowerCase h (keyword rule)) (ruleCategory rule)) [] docs"

subsection \<open>Transactions\<close>

record transaction =
  date :: string
  description :: string
  amount :: jsnum
  category :: string
  originalRow :: row

text \<open>A stored transaction is \<open>{...tx, userId}\<close>.\<close>

record txDoc = transaction +
  userId :: string

datatype error = RangeError

text \<open>The callback of \<open>results.data.map\<close> (source lines 151 to 184).\<close>

definition normalizeRow :: "host \<Rightarrow> obj \<Rightarrow> row \<Rightarrow> error + transaction" where
  "normalizeRow h rules r =
     (let dt = resolveDate r;
          descr = resolveDescription r;
          amt = resolveAmount h r;
          cat = categorize h rules descr;
          tx = \<lparr>date = [], description = trim h descr,
                amount = (if isNaN amt then Fin 0 0 else amt),
                category = cat, originalRow = r\<rparr>
      in if dt \<noteq> [] then
           (case formatDate h dt of
              None \<Rightarrow> Inl RangeError
            | Some d \<Rightarrow> Inr (tx\<lparr>date := d\<rparr>))
         else Inr tx)"

text \<open>\<open>Array.prototype.map\<close> with a callback that may throw: the first exception leaves
  the loop.\<close>

fun mapRows :: "('a \<Rightarrow> error + 'b) \<Rightarrow> 'a list \<Rightarrow> error + 'b list" where
  "mapRows f [] = Inr []"
| "mapRows f (x # xs) =
     (case f x of
        Inl e \<Rightarrow> Inl e
      | Inr y \<Rightarrow> (case mapRows f xs of Inl e \<Rightarrow> Inl e | Inr ys \<Rightarrow> Inr (y # ys)))"

text \<open>The filter \<open>tx.description && !isNaN(tx.amount)\<close>.\<close>

definition valid :: "transaction \<Rightarrow> bool" where
  "valid tx = (description tx \<noteq> [] \<and> \<not> isNaN (amount tx))"

definition parsedTransactions :: "host \<Rightarrow> obj \<Rightarrow> row list \<Rightarrow> error + transaction list" where
  "parsedTransactions h rules rows =
     (case mapRows (normalizeRow h rules) rows of
        Inl e \<Rightarrow> Inl e
      | Inr txs \<Rightarrow> Inr (filter valid txs))"

subsection \<open>Duplicate filter and batched writes\<close>

text \<open>
  The transactions collection of the signed-in user is the list of its documents;
  \<open>addDoc\<close> appends one. Requests to the store are taken to succeed: the service's
  failures, and its bound on the length of the list of an \<open>in\<close> filter, are not
  modelled.
\<close>

definition batchSize :: nat where
  "batchSize = 50"

text \<open>The template literal \<open>${date}-${description}-${amount}\<close>, the same for a candidate
  and for a stored document.\<close>

definition txIdentifier :: "'a transaction_scheme \<Rightarrow> string" where
  "txIdentifier tx = date tx @ ''-'' @ description tx @ ''-'' @ numToString (amount tx)"

text \<open>\<open>filter((v, i, a) => a.indexOf(v) === i)\<close>: the first occurrence of every value.\<close>

fun uniqueValues :: "'a list \<Rightarrow> 'a list" where
  "uniqueValues [] = []"
| "uniqueValues (x # xs) = x # filter (\<lambda>y. y \<noteq> x) (uniqueValues xs)"

text \<open>The query \<open>where('date', 'in', dates), where('userId', '==', uid)\<close>.\<close>

definition getDocs :: "string list \<Rightarrow> string \<Rightarrow> txDoc list \<Rightarrow> txDoc list" where
  "getDocs dates uid col = filter (\<lambda>d. date d \<in> set dates \<and> userId d = uid) col"

text \<open>The document \<open>{ ...tx, userId: uid }\<close>.\<close>

definition withUserId :: "transaction \<Rightarrow> string \<Rightarrow> txDoc" where
  "withUserId tx uid =
     \<lparr>date = date tx, description = description tx, amount = amount tx,
      category = category tx, originalRow = originalRow tx, userId = uid\<rparr>"

definition addDoc :: "txDoc list \<Rightarrow> txDoc \<Rightarrow> txDoc list" where
  "addDoc col d = col @ [d]"

text \<open>The loop over one batch (source lines 212 to 218); the set of existing identifiers
  was built before the loop and stays as it is.\<close>

fun writeBatch ::
  "string \<Rightarrow> string set \<Rightarrow> transaction list \<Rightarrow> txDoc list \<times> nat \<Rightarrow> txDoc list \<times> nat" where
  "writeBatch uid existingTxSet [] (col, savedCount) = (col, savedCount)"
| "writeBatch uid existingTxSet (tx # batch) (col, savedCount) =
     (if txIdentifier tx \<notin> existingTxSet
      then writeBatch uid existingTxSet batch (addDoc col (withUserId tx uid), savedCount + 1)
      else writeBatch uid existingTxSet batch (col, savedCount))"

text \<open>The loop over the batches (source lines 193 to 219), from index \<open>i\<close>.\<close>

function saveBatches ::
  "string \<Rightarrow> transaction list \<Rightarrow> nat \<Rightarrow> txDoc list \<times> nat \<Rightarrow> txDoc list \<times> nat" where
  "saveBatches uid parsed i (col, savedCount) =
     (if i < length parsed then
        (let batch = take batchSize (drop i parsed);
             existingDocs = getDocs (uniqueValues (map date batch)) uid col;
             existingTxSet = set (map txIdentifier existingDocs)
         in saveBatches uid parsed (i + batchSize)
              (writeBatch uid existingTxSet batch (col, savedCount)))
      else (col, savedCount))"
  by pat_completeness auto
termination
  by (relation "measure (\<lambda>(uid, parsed, i, s). length parsed - i)")
     (auto simp: batchSize_def)

text \<open>The status line that the handlers set.\<close>

datatype message =
  AddedTransactions nat
| NotReady
| CategoryUpdated
| ErrorUpdatingCategory
| CategoryEmpty
| CategoryExists
| CategoryAdded

text \<open>
  The \<open>complete\<close> callback of the parse: \<open>db\<close> tells whether the store handle is set,
  \<open>uid\<close> is the signed-in user if any, \<open>rules\<close> the rule table of the moment, \<open>rows\<close>
  the parser's \<open>results.data\<close>, \<open>col\<close> the stored transactions. It returns the store
  and either the exception that ended the callback or the message it set.
\<close>

definition complete ::
  "host \<Rightarrow> bool \<Rightarrow> string option \<Rightarrow> obj \<Rightarrow> row list
     \<Rightarrow> txDoc list \<Rightarrow> txDoc list \<times> (error + message)" where
  "complete h db uid rules rows col =
     (case parsedTransactions h rules rows of
        Inl e \<Rightarrow> (col, Inl e)
      | Inr parsed \<Rightarrow>
          (case uid of
             Some u \<Rightarrow>
               (if db \<and> u \<noteq> [] then
                  (let (col', savedCount) = saveBatches u parsed 0 (col, 0)
                   in (col', Inr (AddedTransactions savedCount)))
                else (col, Inr NotReady))
           | None \<Rightarrow> (col, Inr NotReady)))"

section \<open>Rule learner (\<open>handleCategoryChange\<close>)\<close>

text \<open>The candidate keyword (source line 251):
  \<open>lowerDescription.split(' ').slice(0, 2).join(' ')\<close>.\<close>

definition keywordCandidate :: "host \<Rightarrow> string \<Rightarrow> string" where
  "keywordCandidate h descr = join '' '' (take 2 (split CHR '' '' (toLowerCase h descr)))"

text \<open>
  A document is addressed by its place in the collection. \<open>updateDoc\<close> on a document
  that the collection does not hold is rejected, here \<open>None\<close>.
\<close>

definition updateCategory :: "nat \<Rightarrow> string \<Rightarrow> txDoc list \<Rightarrow> txDoc list option" where
  "updateCategory transactionId newCategory col =
     (if transactionId < length col
      then Some (col[transactionId := (col ! transactionId)\<lparr>category := newCategory\<rparr>])
      else None)"

text \<open>The place of the first document that a query returns.\<close>

fun firstIndex :: "('a \<Rightarrow> bool) \<Rightarrow> 'a list \<Rightarrow> nat option" where
  "firstIndex P [] = None"
| "firstIndex P (x # xs) = (if P x then Some 0 else map_option Suc (firstIndex P xs))"

text \<open>
  Source lines 247 to 253, which read the page's state only: the keyword for which the
  handler goes on to the rules collection, if any. \<open>transactions\<close> is the list the page
  shows, each entry with the place of its document, and \<open>rules\<close> the rule table of the
  moment. A property that \<open>rules\<close> only inherits is an object or a function: it differs
  from every category, so the condition lets it through as it does a missing key.
\<close>

definition learnerKeyword ::
  "host \<Rightarrow> (nat \<times> txDoc) list \<Rightarrow> obj \<Rightarrow> nat \<Rightarrow> string \<Rightarrow> string option" where
  "learnerKeyword h transactions rules transactionId newCategory =
     (case find (\<lambda>tx. fst tx = transactionId) transactions of
        None \<Rightarrow> None
      | Some transactionToUpdate \<Rightarrow>
          (if newCategory \<noteq> ''Uncategorized'' \<and> newCategory \<noteq> [] then
             (let kw = keywordCandidate h (description (snd transactionToUpdate))
              in if kw \<noteq> [] \<and> (\<not> truthy (getProp rules kw) \<or> getProp rules kw \<noteq> Some newCategory)
                 then Some kw
                 else None)
           else None))"

text \<open>
  The handler is asynchronous: it gives way at each \<open>await\<close>, that is before each request
  to the store (lines 244, 256 and 259 or 264), and requests of other handlers may be
  served in between. A handler on its way is where it waits: at the end with its
  message (\<open>None\<close> when it returned at once), before the query for the rule of a keyword,
  or, with the first document of the query's answer in hand, before the write.
\<close>

datatype pending =
  Done "message option"
| Query string string string
| Write string string string "nat option"

type_synonym store = "txDoc list \<times> ruleDoc list"

text \<open>From the call to the first request served (line 244) and on to the next
  \<open>await\<close>.\<close>

definition startCategoryChange ::
  "host \<Rightarrow> bool \<Rightarrow> string option \<Rightarrow> (nat \<times> txDoc) list \<Rightarrow> obj \<Rightarrow> nat \<Rightarrow> string
     \<Rightarrow> store \<Rightarrow> pending \<times> store" where
  "startCategoryChange h db uid transactions rules transactionId newCategory st =
     (case uid of
        None \<Rightarrow> (Done None, st)
      | Some u \<Rightarrow>
          (if \<not> db \<or> u = [] then (Done None, st)
           else
             (case updateCategory transactionId newCategory (fst st) of
                None \<Rightarrow> (Done (Some ErrorUpdatingCategory), st)
              | Some col \<Rightarrow>
                  (case learnerKeyword h transactions rules transactionId newCategory of
                     None \<Rightarrow> (Done (Some CategoryUpdated), (col, snd st))
                   | Some kw \<Rightarrow> (Query u kw newCategory, (col, snd st))))))"

text \<open>The next request of a waiting handler: the query (line 256), or the write that
  the answer of the query calls for, \<open>addDoc\<close> when it was empty (line 259) and
  \<open>updateDoc\<close> on its first document otherwise (line 264).\<close>

fun resume :: "pending \<Rightarrow> store \<Rightarrow> pending \<times> store" where
  "resume (Done m) st = (Done m, st)"
| "resume (Query u kw c) st =
     (Write u kw c (firstIndex (\<lambda>r. keyword r = kw \<and> ruleUserId r = u) (snd st)), st)"
| "resume (Write u kw c None) st =
     (Done (Some CategoryUpdated),
      (fst st, snd st @ [\<lparr>keyword = kw, ruleCategory = c, ruleUserId = u\<rparr>]))"
| "resume (Write u kw c (Some i)) st =
     (if i < length (snd st)
      then (Done (Some CategoryUpdated),
            (fst st, (snd st)[i := (snd st ! i)\<lparr>ruleCategory := c\<rparr>]))
      else (Done (Some ErrorUpdatingCategory), st))"

text \<open>A waiting handler run to its end with no other request in between.\<close>

function finish :: "pending \<Rightarrow> store \<Rightarrow> store \<times> message option" where
  "finish (Done m) st = (st, m)"
| "finish (Query u kw c) st =
     (case resume (Query u kw c) st of (p, st') \<Rightarrow> finish p st')"
| "finish (Write u kw c s) st =
     (case resume (Write u kw c s) st of (p, st') \<Rightarrow> finish p st')"
  by pat_completeness auto
termination
proof (relation "measure (\<lambda>(p, st). case p of Done m \<Rightarrow> 0 | Query u kw c \<Rightarrow> 2
                                       | Write u kw c s \<Rightarrow> (1 :: nat))", goal_cases)
  case 1
  show ?case by simp
next
  case (2 u kw c st p st')
  then show ?case by auto
next
  case (3 u kw c s st p st')
  then show ?case by (cases s) (auto split: if_splits)
qed

text \<open>The handler from its call to its end, alone on the store.\<close>

definition handleCategoryChange ::
  "host \<Rightarrow> bool \<Rightarrow> string option \<Rightarrow> (nat \<times> txDoc) list \<Rightarrow> obj \<Rightarrow> nat \<Rightarrow> string
     \<Rightarrow> store \<Rightarrow> store \<times> message option" where
  "handleCategoryChange h db uid transactions rules transactionId newCategory st =
     (case startCategoryChange h db uid transactions rules transactionId newCategory st of
        (p, st') \<Rightarrow> finish p st')"

section \<open>Categories (\<open>handleAddCategory\<close>)\<close>

record categoryDoc =
  name :: string
  catUserId :: string

text \<open>\<open>categories\<close> is the list of the user's categories that the page holds,
  \<open>col\<close> the stored collection.\<close>

definition handleAddCategory ::
  "host \<Rightarrow> bool \<Rightarrow> string option \<Rightarrow> categoryDoc list \<Rightarrow> string \<Rightarrow> categoryDoc list
     \<Rightarrow> categoryDoc list \<times> message" where
  "handleAddCategory h db uid categories newCategoryName col =
     (case uid of
        None \<Rightarrow> (col, CategoryEmpty)
      | Some u \<Rightarrow>
          (if trim h newCategoryName = [] \<or> \<not> db \<or> u = [] then (col, CategoryEmpty)
           else if list_ex (\<lambda>cat. toLowerCase h (name cat)
                                   = toLowerCase h (trim h newCategoryName)) categories
           then (col, CategoryExists)
           else (col @ [\<lparr>name = trim h newCategoryName, catUserId = u\<rparr>], CategoryAdded)))"

section \<open>Notions of the specification and of the proofs\<close>

text \<open>``Scan rule keywords in the order given; the first keyword found as a substring of
  the lowercased description wins; if no keyword matches, Uncategorized.'' This follows
  the words of the specification, not the code.\<close>

definition spec_categorize :: "host \<Rightarrow> (string \<times> string) list \<Rightarrow> string \<Rightarrow> string" where
  "spec_categorize h rules descr =
     (case find (\<lambda>p. sublist (fst p) (toLowerCase h descr)) rules of
        None \<Rightarrow> ''Uncategorized''
      | Some p \<Rightarrow> snd p)"

text \<open>At most one rule for every pair of owner and keyword.\<close>

definition ruleKey :: "ruleDoc \<Rightarrow> string \<times> string" where
  "ruleKey r = (ruleUserId r, keyword r)"

definition oneRulePerKeyword :: "ruleDoc list \<Rightarrow> bool" where
  "oneRulePerKeyword ruleCol = distinct (map ruleKey ruleCol)"

text \<open>What the query and the write of the learner make of the rules when no other
  request comes in between.\<close>

definition upsertRule :: "string \<Rightarrow> string \<Rightarrow> string \<Rightarrow> ruleDoc list \<Rightarrow> ruleDoc list" where
  "upsertRule uid kw newCategory ruleCol =
     (case firstIndex (\<lambda>r. keyword r = kw \<and> ruleUserId r = uid) ruleCol of
        None \<Rightarrow> ruleCol @ [\<lparr>keyword = kw, ruleCategory = newCategory, ruleUserId = uid\<rparr>]
      | Some i \<Rightarrow> ruleCol[i := (ruleCol ! i)\<lparr>ruleCategory := newCategory\<rparr>])"

text \<open>A stored document stands for every candidate of the batch: the query of the batch
  returns a document with the candidate's identifier.\<close>

definition covered :: "string \<Rightarrow> txDoc list \<Rightarrow> transaction list \<Rightarrow> bool" where
  "covered uid col batch =
     (\<forall>tx \<in> set batch.
        txIdentifier tx \<in> set (map txIdentifier (getDocs (uniqueValues (map date batch)) uid col)))"

text \<open>A candidate without its category: what the duplicate filter looks at.\<close>

definition noCategory :: "transaction \<Rightarrow> transaction" where
  "noCategory tx = tx\<lparr>category := []\<rparr>"

text \<open>A property of every batch that the loop forms from index \<open>i\<close> on.\<close>

function everyBatch :: "(transaction list \<Rightarrow> bool) \<Rightarrow> transaction list \<Rightarrow> nat \<Rightarrow> bool" where
  "everyBatch Q parsed i =
     (if i < length parsed
      then Q (take batchSize (drop i parsed)) \<and> everyBatch Q parsed (i + batchSize)
      else True)"
  by pat_completeness auto
termination
  by (relation "measure (\<lambda>(Q, parsed, i). length parsed - i)") (auto simp: batchSize_def)

section \<open>Row normalizer: amounts\<close>

lemma truthyNum_not_NaN: "truthyNum n \<Longrightarrow> \<not> isNaN (neg n) \<and> \<not> isNaN n"
  by (cases n) auto

text \<open>
  C2, as stated: a row whose resolved amount is \<open>NaN\<close> is rejected and never written.
  The code does otherwise: the record takes \<open>isNaN(amount) ? 0 : amount\<close>, so the filter
  that follows never meets a \<open>NaN\<close>. The row with description \<open>Coffee\<close> and amount
  \<open>abc\<close> resolves to \<open>NaN\<close> and is written with amount 0.
\<close>

theorem nan_amount_counterexample:
  "isNaN (resolveAmount asciiHost [(''Description'', ''Coffee''), (''Amount'', ''abc'')])
   \<and> complete asciiHost True (Some ''u1'') []
        [[(''Description'', ''Coffee''), (''Amount'', ''abc'')]] []
      = ([\<lparr>date = [], description = ''Coffee'', amount = Fin 0 0,
            category = ''Uncategorized'',
            originalRow = [(''Description'', ''Coffee''), (''Amount'', ''abc'')],
            userId = ''u1''\<rparr>],
         Inr (AddedTransactions 1))"
  by code_simp

text \<open>
  C2, amended: for every row whose date is empty or is read by the date library (a row
  with another date ends the import, see C5), if the resolved amount is \<open>NaN\<close>, the row is
  normalized to a transaction with the amount 0, and this transaction passes the filter
  exactly when the description of the row is not empty after trimming.
\<close>

theorem nan_amount_kept_as_zero:
  assumes "isNaN (resolveAmount h r)"
    and "resolveDate r = [] \<or> formatDate h (resolveDate r) \<noteq> None"
  shows "\<exists>tx. normalizeRow h rules r = Inr tx \<and> amount tx = Fin 0 0
              \<and> (valid tx \<longleftrightarrow> trim h (resolveDescription r) \<noteq> [])"
  using assms
  by (auto simp: normalizeRow_def valid_def Let_def split: option.splits)

theorem nan_amount_kept_as_zero_witness:
  "isNaN (resolveAmount asciiHost [(''Description'', ''Coffee''), (''Amount'', ''abc'')])
   \<and> resolveDate [(''Description'', ''Coffee''), (''Amount'', ''abc'')] = []
   \<and> trim asciiHost (resolveDescription [(''Description'', ''Coffee''), (''Amount'', ''abc'')])
       = ''Coffee''
   \<and> (\<exists>tx. normalizeRow asciiHost [] [(''Description'', ''Coffee''), (''Amount'', ''abc'')]
             = Inr tx \<and> amount tx = Fin 0 0 \<and> valid tx)"
proof -
  have a: "isNaN (resolveAmount asciiHost [(''Description'', ''Coffee''), (''Amount'', ''abc'')])"
    by code_simp
  have b: "resolveDate [(''Description'', ''Coffee''), (''Amount'', ''abc'')] = []"
    by code_simp
  have c: "trim asciiHost (resolveDescription [(''Description'', ''Coffee''), (''Amount'', ''abc'')])
           = ''Coffee''"
    by code_simp
  from b have d: "resolveDate [(''Description'', ''Coffee''), (''Amount'', ''abc'')] = []
      \<or> formatDate asciiHost (resolveDate [(''Description'', ''Coffee''), (''Amount'', ''abc'')])
        \<noteq> None"
    by simp
  from nan_amount_kept_as_zero [OF a d, of "[]"] a b c show ?thesis
    by auto
qed

text \<open>
  C3, as stated: a non-empty \<open>Debit\<close> cell that parses as a number is negated, whatever
  the \<open>Amount\<close> column holds. The condition of the code is the truthiness of
  \<open>parseFloat(row['Debit'])\<close>, which zero fails: with \<open>Debit\<close> \<open>0\<close> and \<open>Amount\<close>
  \<open>5\<close> the amount is 5, not the negation of 0.
\<close>

theorem debit_zero_counterexample:
  "cell [(''Amount'', ''5''), (''Debit'', ''0'')] ''Debit'' = Some ''0''
   \<and> parseFloat asciiHost ''0'' = Fin 0 0
   \<and> resolveAmount asciiHost [(''Amount'', ''5''), (''Debit'', ''0'')] = Fin 5 0
   \<and> resolveAmount asciiHost [(''Amount'', ''5''), (''Debit'', ''0'')]
       \<noteq> neg (parseFloat asciiHost ''0'')"
  by code_simp

text \<open>
  C3, amended: for every row whose \<open>Debit\<close> cell is non-empty and for which
  \<open>parseFloat\<close> returns a number other than zero (and not \<open>NaN\<close>), the resolved amount,
  and the amount of the normalized transaction, is the negation of that number, whatever
  the \<open>Amount\<close> column holds.
\<close>

theorem debit_negated:
  assumes "cell r ''Debit'' = Some d" and "d \<noteq> []" and "truthyNum (parseFloat h d)"
  shows "resolveAmount h r = neg (parseFloat h d)
         \<and> (\<forall>tx. normalizeRow h rules r = Inr tx \<longrightarrow> amount tx = neg (parseFloat h d))"
proof -
  have r: "resolveAmount h r = neg (parseFloat h d)"
    using assms by (simp add: resolveAmount_def)
  have "\<not> isNaN (neg (parseFloat h d))"
    using assms(3) by (simp add: truthyNum_not_NaN)
  with r show ?thesis
    by (auto simp: normalizeRow_def Let_def split: if_splits option.splits)
qed

theorem debit_negated_witness:
  "cell [(''Date'', ''2024-01-05''), (''Description'', '' Whole Foods Market ''),
         (''Amount'', ''7''), (''Debit'', ''42.17'')] ''Debit'' = Some ''42.17''
   \<and> parseFloat asciiHost ''42.17'' = Fin 4217 (- 2)
   \<and> resolveAmount asciiHost
        [(''Date'', ''2024-01-05''), (''Description'', '' Whole Foods Market ''),
         (''Amount'', ''7''), (''Debit'', ''42.17'')] = Fin (- 4217) (- 2)
   \<and> normalizeRow asciiHost []
        [(''Date'', ''2024-01-05''), (''Description'', '' Whole Foods Market ''),
         (''Amount'', ''7''), (''Debit'', ''42.17'')]
      = Inr \<lparr>date = ''2024-01-05'', description = ''Whole Foods Market'',
              amount = Fin (- 4217) (- 2), category = ''Uncategorized'',
              originalRow =
                [(''Date'', ''2024-01-05''), (''Description'', '' Whole Foods Market ''),
                 (''Amount'', ''7''), (''Debit'', ''42.17'')]\<rparr>"
proof -
  have a: "cell [(''Date'', ''2024-01-05''), (''Description'', '' Whole Foods Market ''),
                 (''Amount'', ''7''), (''Debit'', ''42.17'')] ''Debit'' = Some ''42.17''"
    by code_simp
  have b: "''42.17'' \<noteq> []" by simp
  have p: "parseFloat asciiHost ''42.17'' = Fin 4217 (- 2)" by code_simp
  have c: "truthyNum (parseFloat asciiHost ''42.17'')" by (simp add: p)
  have n: "normalizeRow asciiHost []
        [(''Date'', ''2024-01-05''), (''Description'', '' Whole Foods Market ''),
         (''Amount'', ''7''), (''Debit'', ''42.17'')]
      = Inr \<lparr>date = ''2024-01-05'', description = ''Whole Foods Market'',
              amount = Fin (- 4217) (- 2), category = ''Uncategorized'',
              originalRow =
                [(''Date'', ''2024-01-05''), (''Description'', '' Whole Foods Market ''),
                 (''Amount'', ''7''), (''Debit'', ''42.17'')]\<rparr>"
    by code_simp
  from debit_negated [OF a b c, of "[]"] a p n show ?thesis by simp
qed

section \<open>Categorizer\<close>

lemma startsWith_prefix: "startsWith s k \<longleftrightarrow> prefix k s"
  by (induction s k rule: startsWith.induct) auto

lemma includesStr_sublist: "includesStr s k \<longleftrightarrow> sublist k s"
proof (induction s)
  case Nil
  show ?case by simp
next
  case (Cons c cs)
  show ?case
  proof (cases k)
    case Nil
    then show ?thesis by simp
  next
    case (Cons a as)
    with Cons.IH show ?thesis
      by (simp add: startsWith_prefix sublist_Cons_right)
  qed
qed

lemma firstMatch_find:
  "firstMatch ld ps =
     (case find (\<lambda>p. sublist (fst p) ld) ps of None \<Rightarrow> ''Uncategorized'' | Some p \<Rightarrow> snd p)"
  by (induction ps) (auto simp: includesStr_sublist)

lemma forIn_parts:
  "\<exists>indexKeys others.
     forIn rules = indexKeys @ others
     \<and> list_all (\<lambda>p. isArrayIndex (fst p)) indexKeys
     \<and> sorted (map (\<lambda>p. digitsVal (fst p)) indexKeys)
     \<and> others = filter (\<lambda>p. \<not> isArrayIndex (fst p)) rules"
proof -
  let ?ix = "sort_key (\<lambda>p. digitsVal (fst p)) (filter (\<lambda>p. isArrayIndex (fst p)) rules)"
  have "list_all (\<lambda>p. isArrayIndex (fst p)) ?ix"
    by (simp add: list_all_iff)
  moreover have "sorted (map (\<lambda>p. digitsVal (fst p)) ?ix)"
    by (rule sorted_sort_key)
  ultimately show ?thesis
    unfolding forIn_def by blast
qed

lemma mset_forIn: "mset (forIn rules) = mset rules"
  by (simp add: forIn_def)

text \<open>
  C4, as stated: the categorizer scans the keywords of the rule table in insertion order.
  The rule table is a plain object, and \<open>for ... in\<close> visits its array-index keys
  first: with the rules \<open>shell\<close> and \<open>7\<close> stored in this order, the description
  \<open>7 Eleven Shell\<close> gets the category of \<open>7\<close>, although \<open>shell\<close> was inserted
  first and occurs in the description as well.
\<close>

theorem numeric_keyword_counterexample:
  "fetchRules asciiHost
     [\<lparr>keyword = ''shell'', ruleCategory = ''Auto'', ruleUserId = ''u1''\<rparr>,
      \<lparr>keyword = ''7'', ruleCategory = ''Shopping'', ruleUserId = ''u1''\<rparr>]
     = [(''shell'', ''Auto''), (''7'', ''Shopping'')]
   \<and> categorize asciiHost [(''shell'', ''Auto''), (''7'', ''Shopping'')] ''7 Eleven Shell''
       = ''Shopping''
   \<and> spec_categorize asciiHost [(''shell'', ''Auto''), (''7'', ''Shopping'')] ''7 Eleven Shell''
       = ''Auto''"
  by code_simp

text \<open>
  C4, amended: the categorizer lowercases the description and assigns the category of the
  first keyword, in the order in which \<open>for ... in\<close> visits the rule table, that is a
  substring of the lowercased description, \<open>Uncategorized\<close> if there is none. That order
  holds the entries of the table, each once: first those whose key is an array index, in
  ascending numeric order, then all others in insertion order. When no keyword is an array
  index it is the insertion order.
\<close>

theorem categorize_in_iteration_order:
  "categorize h rules descr = spec_categorize h (forIn rules) descr
   \<and> mset (forIn rules) = mset rules
   \<and> (\<exists>indexKeys others.
         forIn rules = indexKeys @ others
         \<and> list_all (\<lambda>p. isArrayIndex (fst p)) indexKeys
         \<and> sorted (map (\<lambda>p. digitsVal (fst p)) indexKeys)
         \<and> others = filter (\<lambda>p. \<not> isArrayIndex (fst p)) rules)
   \<and> (list_all (\<lambda>p. \<not> isArrayIndex (fst p)) rules \<longrightarrow>
        categorize h rules descr = spec_categorize h rules descr)"
proof -
  have a: "categorize h rules descr = spec_categorize h (forIn rules) descr"
    by (simp add: categorize_def spec_categorize_def firstMatch_find)
  have "forIn rules = rules" if "list_all (\<lambda>p. \<not> isArrayIndex (fst p)) rules"
    using that by (simp add: forIn_def filter_id_conv list_all_iff)
  with a forIn_parts [of rules] mset_forIn [of rules] show ?thesis
    by simp
qed

theorem categorize_in_iteration_order_witness:
  "list_all (\<lambda>p. \<not> isArrayIndex (fst p))
     [(''coffee'', ''Dining''), (''starbucks coffee'', ''Cafe''), (''gas'', ''Fuel'')]
   \<and> categorize asciiHost
        [(''coffee'', ''Dining''), (''starbucks coffee'', ''Cafe''), (''gas'', ''Fuel'')]
        ''Starbucks Coffee Purchase'' = ''Dining''
   \<and> spec_categorize asciiHost
        [(''coffee'', ''Dining''), (''starbucks coffee'', ''Cafe''), (''gas'', ''Fuel'')]
        ''Starbucks Coffee Purchase'' = ''Dining''
   \<and> categorize asciiHost
        [(''coffee'', ''Dining''), (''starbucks coffee'', ''Cafe''), (''gas'', ''Fuel'')]
        ''Las Vegas'' = ''Fuel''
   \<and> forIn [(''shell'', ''Auto''), (''12'', ''Cheque''), (''gas'', ''Fuel''), (''7'', ''Shopping'')]
       = [(''7'', ''Shopping''), (''12'', ''Cheque''), (''shell'', ''Auto''), (''gas'', ''Fuel'')]
   \<and> categorize asciiHost
        [(''shell'', ''Auto''), (''12'', ''Cheque''), (''gas'', ''Fuel''), (''7'', ''Shopping'')]
        ''Shell Gas 12'' = ''Cheque''
   \<and> spec_categorize asciiHost
        [(''7'', ''Shopping''), (''12'', ''Cheque''), (''shell'', ''Auto''), (''gas'', ''Fuel'')]
        ''Shell Gas 12'' = ''Cheque''"
proof -
  let ?r = "[(''coffee'', ''Dining''), (''starbucks coffee'', ''Cafe''), (''gas'', ''Fuel'')]"
  let ?q = "[(''shell'', ''Auto''), (''12'', ''Cheque''), (''gas'', ''Fuel''), (''7'', ''Shopping'')]"
  have a: "list_all (\<lambda>p. \<not> isArrayIndex (fst p)) ?r"
    by code_simp
  have b: "categorize asciiHost ?r ''Starbucks Coffee Purchase'' = ''Dining''"
    by code_simp
  have c: "categorize asciiHost ?r ''Las Vegas'' = ''Fuel''"
    by code_simp
  have d: "forIn ?q
      = [(''7'', ''Shopping''), (''12'', ''Cheque''), (''shell'', ''Auto''), (''gas'', ''Fuel'')]"
    by code_simp
  have e: "categorize asciiHost ?q ''Shell Gas 12'' = ''Cheque''"
    by code_simp
  from categorize_in_iteration_order [of asciiHost ?r "''Starbucks Coffee Purchase''"]
    categorize_in_iteration_order [of asciiHost ?q "''Shell Gas 12''"] a b c d e
  show ?thesis by simp
qed

section \<open>Row normalizer: dates\<close>

text \<open>
  C5: a row whose date is not empty and cannot be read fails alone, and the other rows
  of the file are still written. The code does not do that: for such a date \<open>format\<close>
  throws inside the callback of \<open>results.data.map\<close>, nothing catches it, and the
  \<open>complete\<close> callback ends before the first write. With the date \<open>01/05/2024\<close>
  in the first row, the second row, which alone is written as one transaction, is not
  written either.
\<close>

theorem malformed_date_aborts_import:
  "formatDate asciiHost ''01/05/2024'' = None
   \<and> complete asciiHost True (Some ''u1'') []
        [[(''Date'', ''01/05/2024''), (''Description'', ''Coffee''), (''Amount'', ''5'')],
         [(''Date'', ''2024-01-06''), (''Description'', ''Tea''), (''Amount'', ''3'')]] []
      = ([], Inl RangeError)
   \<and> complete asciiHost True (Some ''u1'') []
        [[(''Date'', ''2024-01-06''), (''Description'', ''Tea''), (''Amount'', ''3'')]] []
      = ([\<lparr>date = ''2024-01-06'', description = ''Tea'', amount = Fin 3 0,
            category = ''Uncategorized'',
            originalRow = [(''Date'', ''2024-01-06''), (''Description'', ''Tea''), (''Amount'', ''3'')],
            userId = ''u1''\<rparr>],
         Inr (AddedTransactions 1))"
  by code_simp

section \<open>Duplicate filter\<close>

text \<open>
  C9: two rows of one batch that normalize to the same date, description and amount are
  both written. The set of existing identifiers comes from the stored documents before
  the batch is written, and the writes of the batch do not enter it.
\<close>

theorem same_batch_duplicates_both_written:
  "complete asciiHost True (Some ''u1'') []
     [[(''Date'', ''2024-01-05''), (''Description'', ''Coffee''), (''Amount'', ''5'')],
      [(''Date'', ''2024-01-05''), (''Description'', ''Coffee''), (''Amount'', ''5'')]] []
   = ([\<lparr>date = ''2024-01-05'', description = ''Coffee'', amount = Fin 5 0,
         category = ''Uncategorized'',
         originalRow = [(''Date'', ''2024-01-05''), (''Description'', ''Coffee''), (''Amount'', ''5'')],
         userId = ''u1''\<rparr>,
       \<lparr>date = ''2024-01-05'', description = ''Coffee'', amount = Fin 5 0,
         category = ''Uncategorized'',
         originalRow = [(''Date'', ''2024-01-05''), (''Description'', ''Coffee''), (''Amount'', ''5'')],
         userId = ''u1''\<rparr>],
      Inr (AddedTransactions 2))"
  by code_simp

text \<open>
  C10: two transactions that differ in description and amount have the same identifier,
  since the separator \<open>-\<close> may end a description and may be the sign of an amount:
  \<open>ACME\<close> with amount \<open>-5\<close> and \<open>ACME-\<close> with amount \<open>5\<close>. With the
  first one stored, the import of the second one writes nothing.
\<close>

theorem identifier_collision:
  "txIdentifier \<lparr>date = ''2024-01-05'', description = ''ACME'', amount = Fin (- 5) 0,
                  category = ''Uncategorized'', originalRow = [], userId = ''u1''\<rparr>
   = ''2024-01-05-ACME--5''
   \<and> txIdentifier \<lparr>date = ''2024-01-05'', description = ''ACME-'', amount = Fin 5 0,
                  category = ''Uncategorized'', originalRow = []\<rparr>
   = ''2024-01-05-ACME--5''
   \<and> complete asciiHost True (Some ''u1'') []
        [[(''Date'', ''2024-01-05''), (''Description'', ''ACME-''), (''Amount'', ''5'')]]
        [\<lparr>date = ''2024-01-05'', description = ''ACME'', amount = Fin (- 5) 0,
           category = ''Uncategorized'', originalRow = [], userId = ''u1''\<rparr>]
      = ([\<lparr>date = ''2024-01-05'', description = ''ACME'', amount = Fin (- 5) 0,
            category = ''Uncategorized'', originalRow = [], userId = ''u1''\<rparr>],
         Inr (AddedTransactions 0))
   \<and> parsedTransactions asciiHost []
        [[(''Date'', ''2024-01-05''), (''Description'', ''ACME-''), (''Amount'', ''5'')]]
      = Inr [\<lparr>date = ''2024-01-05'', description = ''ACME-'', amount = Fin 5 0,
            category = ''Uncategorized'', originalRow = [(''Date'', ''2024-01-05''), (''Description'', ''ACME-''), (''Amount'', ''5'')]\<rparr>]"
  by code_simp

section \<open>Import twice\<close>

declare saveBatches.simps [simp del] everyBatch.simps [simp del]

lemma txIdentifier_withUserId [simp]: "txIdentifier (withUserId tx uid) = txIdentifier tx"
  by (simp add: txIdentifier_def withUserId_def)

lemma set_uniqueValues [simp]: "set (uniqueValues xs) = set xs"
  by (induction xs) auto

lemma writeBatch_result:
  "writeBatch uid E batch (col, n) =
     (col @ map (\<lambda>tx. withUserId tx uid) (filter (\<lambda>tx. txIdentifier tx \<notin> E) batch),
      n + length (filter (\<lambda>tx. txIdentifier tx \<notin> E) batch))"
  by (induction batch arbitrary: col n) (simp_all add: addDoc_def)

lemma covered_append: "covered uid col batch \<Longrightarrow> covered uid (col @ ys) batch"
  by (auto simp: covered_def getDocs_def)

lemma getDocs_append_mem:
  "d \<in> set new \<Longrightarrow> date d \<in> set dates \<Longrightarrow> userId d = uid \<Longrightarrow>
     d \<in> set (getDocs dates uid (col @ new))"
  by (simp add: getDocs_def)

lemma covered_writeBatch:
  "covered uid
     (fst (writeBatch uid
             (set (map txIdentifier (getDocs (uniqueValues (map date batch)) uid col)))
             batch (col, n)))
     batch"
proof -
  let ?E = "set (map txIdentifier (getDocs (uniqueValues (map date batch)) uid col))"
  let ?new = "map (\<lambda>tx. withUserId tx uid) (filter (\<lambda>tx. txIdentifier tx \<notin> ?E) batch)"
  have "txIdentifier tx \<in> set (map txIdentifier (getDocs (uniqueValues (map date batch)) uid (col @ ?new)))"
    if tx: "tx \<in> set batch" for tx
  proof (cases "txIdentifier tx \<in> ?E")
    case True
    then show ?thesis by (auto simp: getDocs_def)
  next
    case False
    with tx have "withUserId tx uid \<in> set ?new" by simp
    moreover have "date (withUserId tx uid) \<in> set (map date batch)" "userId (withUserId tx uid) = uid"
      using tx by (simp_all add: withUserId_def)
    ultimately have "withUserId tx uid \<in> set (getDocs (uniqueValues (map date batch)) uid (col @ ?new))"
      by (intro getDocs_append_mem) simp_all
    then have "txIdentifier (withUserId tx uid)
        \<in> set (map txIdentifier (getDocs (uniqueValues (map date batch)) uid (col @ ?new)))"
      by (simp del: txIdentifier_withUserId)
    then show ?thesis by simp
  qed
  then show ?thesis
    by (simp add: writeBatch_result covered_def)
qed

lemma saveBatches_covers:
  "(\<exists>ys. fst (saveBatches uid parsed i st) = fst st @ ys)
   \<and> everyBatch (covered uid (fst (saveBatches uid parsed i st))) parsed i"
proof (induction uid parsed i st rule: saveBatches.induct)
  case (1 uid parsed i col savedCount)
  show ?case
  proof (cases "i < length parsed")
    case False
    then show ?thesis
      by (subst everyBatch.simps, subst (1 2) saveBatches.simps) simp
  next
    case True
    let ?batch = "take batchSize (drop i parsed)"
    let ?E = "set (map txIdentifier (getDocs (uniqueValues (map date ?batch)) uid col))"
    let ?st = "writeBatch uid ?E ?batch (col, savedCount)"
    let ?res = "saveBatches uid parsed (i + batchSize) ?st"
    have eq: "saveBatches uid parsed i (col, savedCount) = ?res"
      using True by (subst saveBatches.simps) (simp add: Let_def)
    from "1.IH" [OF True refl refl refl]
    obtain ys where ys: "fst ?res = fst ?st @ ys"
      and ev: "everyBatch (covered uid (fst ?res)) parsed (i + batchSize)"
      by blast
    obtain zs where zs: "fst ?st = col @ zs"
      by (simp add: writeBatch_result)
    have "covered uid (fst ?st) ?batch"
      by (rule covered_writeBatch)
    then have "covered uid (fst ?res) ?batch"
      unfolding ys by (rule covered_append)
    with ev True have "everyBatch (covered uid (fst ?res)) parsed i"
      by (subst everyBatch.simps) simp
    moreover have "fst ?res = col @ (zs @ ys)"
      using ys zs by simp
    ultimately show ?thesis
      unfolding eq by auto
  qed
qed

lemma writeBatch_covered:
  "covered uid col batch \<Longrightarrow>
     writeBatch uid (set (map txIdentifier (getDocs (uniqueValues (map date batch)) uid col)))
       batch (col, n) = (col, n)"
  by (simp add: writeBatch_result covered_def)

lemma saveBatches_nothing_new:
  "everyBatch (covered uid col) parsed i \<Longrightarrow> saveBatches uid parsed i (col, n) = (col, n)"
proof (induction uid parsed i "(col, n)" rule: saveBatches.induct)
  case (1 uid parsed i)
  show ?case
  proof (cases "i < length parsed")
    case False
    then show ?thesis by (subst saveBatches.simps) simp
  next
    case True
    with "1.prems" have c: "covered uid col (take batchSize (drop i parsed))"
      and r: "everyBatch (covered uid col) parsed (i + batchSize)"
      by (subst (asm) everyBatch.simps, simp)+
    have w: "writeBatch uid
        (set (map txIdentifier
               (getDocs (uniqueValues (map date (take batchSize (drop i parsed)))) uid col)))
        (take batchSize (drop i parsed)) (col, n) = (col, n)"
      using c by (rule writeBatch_covered)
    from "1.hyps" [OF True refl refl refl w r] True w show ?thesis
      by (subst saveBatches.simps) (simp add: Let_def)
  qed
qed

lemma noCategory_fields [simp]:
  "txIdentifier (noCategory tx) = txIdentifier tx"
  "date (noCategory tx) = date tx"
  "valid (noCategory tx) = valid tx"
  by (simp_all add: noCategory_def txIdentifier_def valid_def)

lemma covered_noCategory: "covered uid col (map noCategory batch) = covered uid col batch"
  by (simp add: covered_def comp_def)

lemma everyBatch_covered_noCategory:
  "everyBatch (covered uid col) (map noCategory parsed) i = everyBatch (covered uid col) parsed i"
proof (induction "covered uid col" parsed i rule: everyBatch.induct)
  case (1 parsed i)
  show ?case
  proof (cases "i < length parsed")
    case True
    have "take batchSize (drop i (map noCategory parsed))
          = map noCategory (take batchSize (drop i parsed))"
      by (simp add: take_map drop_map)
    with "1.hyps" [OF True] True show ?thesis
      by (subst (1 2) everyBatch.simps) (simp add: covered_noCategory)
  next
    case False
    then show ?thesis
      by (subst (1 2) everyBatch.simps) simp
  qed
qed

lemma normalizeRow_rules:
  "map_sum id noCategory (normalizeRow h rules r)
   = map_sum id noCategory (normalizeRow h rules' r)"
  by (simp add: normalizeRow_def noCategory_def Let_def split: option.splits)

lemma mapRows_rules:
  "map_sum id (map noCategory) (mapRows (normalizeRow h rules) rows)
   = map_sum id (map noCategory) (mapRows (normalizeRow h rules') rows)"
proof (induction rows)
  case Nil
  show ?case by simp
next
  case (Cons r rows)
  from normalizeRow_rules [of h rules r rules'] Cons show ?case
    by (auto split: sum.splits)
qed

lemma parsedTransactions_rules:
  "map_sum id (map noCategory) (parsedTransactions h rules rows)
   = map_sum id (map noCategory) (parsedTransactions h rules' rows)"
proof -
  have f: "map noCategory (filter valid txs) = filter valid (map noCategory txs)" for txs
    by (simp add: filter_map comp_def)
  from mapRows_rules [of h rules rows rules'] show ?thesis
    by (auto simp: parsedTransactions_def f split: sum.splits)
qed

lemma saveBatches_second_run:
  assumes "map noCategory parsed' = map noCategory parsed"
  shows "saveBatches uid parsed' 0 (fst (saveBatches uid parsed 0 st), n)
         = (fst (saveBatches uid parsed 0 st), n)"
proof -
  let ?col = "fst (saveBatches uid parsed 0 st)"
  have "everyBatch (covered uid ?col) parsed 0"
    using saveBatches_covers [of uid parsed 0 st] by simp
  then have "everyBatch (covered uid ?col) (map noCategory parsed) 0"
    by (simp only: everyBatch_covered_noCategory)
  then have "everyBatch (covered uid ?col) (map noCategory parsed') 0"
    by (simp only: assms)
  then have "everyBatch (covered uid ?col) parsed' 0"
    by (simp only: everyBatch_covered_noCategory)
  then show ?thesis
    by (rule saveBatches_nothing_new)
qed

text \<open>
  C1: when the import has run on a file, a second run on the same file against the store
  that the first run left writes nothing: the store stays as it is and the second run
  reports zero added transactions (or the same outcome as the first run, when that one
  ended on an exception or found no signed-in user). The rule table may have changed in
  between.
\<close>

theorem import_twice_adds_nothing:
  assumes "complete h db uid rules rows col = (col1, out1)"
  shows "complete h db uid rules' rows col1
         = (col1, case out1 of Inr (AddedTransactions n) \<Rightarrow> Inr (AddedTransactions 0)
                             | other \<Rightarrow> other)"
proof (cases "parsedTransactions h rules rows")
  case (Inl e)
  with parsedTransactions_rules [of h rules rows rules']
  have "parsedTransactions h rules' rows = Inl e"
    by (cases "parsedTransactions h rules' rows") auto
  with Inl assms show ?thesis
    by (auto simp: complete_def)
next
  case (Inr parsed)
  with parsedTransactions_rules [of h rules rows rules']
  obtain parsed' where p': "parsedTransactions h rules' rows = Inr parsed'"
    and eq: "map noCategory parsed' = map noCategory parsed"
    by (cases "parsedTransactions h rules' rows") auto
  show ?thesis
  proof (cases "\<exists>u. uid = Some u \<and> db \<and> u \<noteq> []")
    case False
    with Inr p' assms show ?thesis
      by (auto simp: complete_def split: option.splits)
  next
    case True
    then obtain u where u: "uid = Some u" "db" "u \<noteq> []" by blast
    from assms Inr u have c1: "col1 = fst (saveBatches u parsed 0 (col, 0))"
      and o1: "out1 = Inr (AddedTransactions (snd (saveBatches u parsed 0 (col, 0))))"
      by (auto simp: complete_def split: prod.splits)
    have "saveBatches u parsed' 0 (col1, 0) = (col1, 0)"
      unfolding c1 using eq by (rule saveBatches_second_run)
    with p' u o1 show ?thesis
      by (simp add: complete_def)
  qed
qed

theorem import_twice_adds_nothing_witness:
  "complete asciiHost True (Some ''u1'') []
     [[(''Date'', ''2024-01-05''), (''Description'', ''Coffee''), (''Amount'', ''5'')],
      [(''Date'', ''2024-01-06''), (''Description'', ''Shell Gas Station''), (''Debit'', ''40'')]]
     []
   = ([\<lparr>date = ''2024-01-05'', description = ''Coffee'', amount = Fin 5 0,
         category = ''Uncategorized'',
         originalRow = [(''Date'', ''2024-01-05''), (''Description'', ''Coffee''), (''Amount'', ''5'')],
         userId = ''u1''\<rparr>,
       \<lparr>date = ''2024-01-06'', description = ''Shell Gas Station'', amount = Fin (- 4) 1,
         category = ''Uncategorized'',
         originalRow = [(''Date'', ''2024-01-06''), (''Description'', ''Shell Gas Station''), (''Debit'', ''40'')],
         userId = ''u1''\<rparr>],
      Inr (AddedTransactions 2))
   \<and> complete asciiHost True (Some ''u1'') [(''shell gas'', ''Auto'')]
     [[(''Date'', ''2024-01-05''), (''Description'', ''Coffee''), (''Amount'', ''5'')],
      [(''Date'', ''2024-01-06''), (''Description'', ''Shell Gas Station''), (''Debit'', ''40'')]]
     [\<lparr>date = ''2024-01-05'', description = ''Coffee'', amount = Fin 5 0,
         category = ''Uncategorized'',
         originalRow = [(''Date'', ''2024-01-05''), (''Description'', ''Coffee''), (''Amount'', ''5'')],
         userId = ''u1''\<rparr>,
       \<lparr>date = ''2024-01-06'', description = ''Shell Gas Station'', amount = Fin (- 4) 1,
         category = ''Uncategorized'',
         originalRow = [(''Date'', ''2024-01-06''), (''Description'', ''Shell Gas Station''), (''Debit'', ''40'')],
         userId = ''u1''\<rparr>]
   = ([\<lparr>date = ''2024-01-05'', description = ''Coffee'', amount = Fin 5 0,
         category = ''Uncategorized'',
         originalRow = [(''Date'', ''2024-01-05''), (''Description'', ''Coffee''), (''Amount'', ''5'')],
         userId = ''u1''\<rparr>,
       \<lparr>date = ''2024-01-06'', description = ''Shell Gas Station'', amount = Fin (- 4) 1,
         category = ''Uncategorized'',
         originalRow = [(''Date'', ''2024-01-06''), (''Description'', ''Shell Gas Station''), (''Debit'', ''40'')],
         userId = ''u1''\<rparr>],
      Inr (AddedTransactions 0))"
proof -
  have a: "complete asciiHost True (Some ''u1'') []
     [[(''Date'', ''2024-01-05''), (''Description'', ''Coffee''), (''Amount'', ''5'')],
      [(''Date'', ''2024-01-06''), (''Description'', ''Shell Gas Station''), (''Debit'', ''40'')]]
     []
   = ([\<lparr>date = ''2024-01-05'', description = ''Coffee'', amount = Fin 5 0,
         category = ''Uncategorized'',
         originalRow = [(''Date'', ''2024-01-05''), (''Description'', ''Coffee''), (''Amount'', ''5'')],
         userId = ''u1''\<rparr>,
       \<lparr>date = ''2024-01-06'', description = ''Shell Gas Station'', amount = Fin (- 4) 1,
         category = ''Uncategorized'',
         originalRow = [(''Date'', ''2024-01-06''), (''Description'', ''Shell Gas Station''), (''Debit'', ''40'')],
         userId = ''u1''\<rparr>],
      Inr (AddedTransactions 2))"
    by code_simp
  from import_twice_adds_nothing [OF a, of "[(''shell gas'', ''Auto'')]"] a show ?thesis
    by simp
qed

section \<open>Rule learner\<close>

text \<open>
  C6: the keyword is the first two whitespace-separated tokens of the lowercased
  description, joined by a space, as the comment of line 251 says (``first two words'').
  The code cuts the description at every single space character and keeps the empty piece
  between two spaces in a row: \<open>Shell Gas Station\<close> gives \<open>shell gas\<close>, but
  \<open>Shell  Gas Station\<close>, with two spaces, gives \<open>shell\<close> followed by a space.
\<close>

theorem keyword_double_space:
  "keywordCandidate asciiHost ''Shell Gas Station'' = ''shell gas''
   \<and> split CHR '' '' ''shell  gas station'' = [''shell'', [], ''gas'', ''station'']
   \<and> keywordCandidate asciiHost ''Shell  Gas Station'' = ''shell ''"
  by code_simp

lemma firstIndex_None: "firstIndex P xs = None \<longleftrightarrow> (\<forall>x \<in> set xs. \<not> P x)"
  by (induction xs) auto

lemma firstIndex_Some: "firstIndex P xs = Some i \<Longrightarrow> i < length xs \<and> P (xs ! i)"
  by (induction xs arbitrary: i) (auto split: if_splits)

lemma map_ruleKey_update:
  "i < length rs \<Longrightarrow> map ruleKey (rs[i := (rs ! i)\<lparr>ruleCategory := c\<rparr>]) = map ruleKey rs"
  by (simp add: map_update ruleKey_def list_update_same_conv)

lemma upsertRule_keys:
  "map ruleKey (upsertRule u kw c rs) = map ruleKey rs
   \<or> (\<exists>r. upsertRule u kw c rs = rs @ [r] \<and> ruleKey r \<notin> set (map ruleKey rs))"
proof (cases "firstIndex (\<lambda>r. keyword r = kw \<and> ruleUserId r = u) rs")
  case None
  then have "\<forall>r \<in> set rs. ruleKey r \<noteq> (u, kw)"
    by (auto simp: firstIndex_None ruleKey_def)
  with None show ?thesis
    by (auto simp: upsertRule_def ruleKey_def)
next
  case (Some i)
  then show ?thesis
    by (simp add: upsertRule_def map_ruleKey_update firstIndex_Some)
qed

lemma upsertRule_in_place:
  assumes "distinct (map ruleKey rs)" and "i < length rs" and "ruleKey (rs ! i) = (u, kw)"
  shows "upsertRule u kw c rs = rs[i := (rs ! i)\<lparr>ruleCategory := c\<rparr>]"
proof -
  from assms(2,3) have "\<exists>r \<in> set rs. keyword r = kw \<and> ruleUserId r = u"
    by (auto simp: ruleKey_def intro!: bexI [of _ "rs ! i"])
  then obtain j where j: "firstIndex (\<lambda>r. keyword r = kw \<and> ruleUserId r = u) rs = Some j"
    by (cases "firstIndex (\<lambda>r. keyword r = kw \<and> ruleUserId r = u) rs")
       (auto simp: firstIndex_None)
  then have jl: "j < length rs" and "ruleKey (rs ! j) = (u, kw)"
    using firstIndex_Some [OF j] by (auto simp: ruleKey_def)
  with assms(2,3) have "j = i"
    using nth_eq_iff_index_eq [OF assms(1), of j i] by simp
  with j show ?thesis
    by (simp add: upsertRule_def)
qed

lemma upsertRule_new:
  assumes "(u, kw) \<notin> set (map ruleKey rs)"
  shows "upsertRule u kw c rs = rs @ [\<lparr>keyword = kw, ruleCategory = c, ruleUserId = u\<rparr>]"
proof -
  from assms have "firstIndex (\<lambda>r. keyword r = kw \<and> ruleUserId r = u) rs = None"
    by (auto simp: firstIndex_None ruleKey_def)
  then show ?thesis
    by (simp add: upsertRule_def)
qed

lemma finish_Query:
  "finish (Query u kw c) st = ((fst st, upsertRule u kw c (snd st)), Some CategoryUpdated)"
proof (cases "firstIndex (\<lambda>r. keyword r = kw \<and> ruleUserId r = u) (snd st)")
  case None
  then show ?thesis by (simp add: upsertRule_def)
next
  case (Some i)
  with firstIndex_Some [OF Some] show ?thesis
    by (simp add: upsertRule_def)
qed

declare finish.simps(2,3) [simp del]

lemma handleCategoryChange_learns:
  assumes "u \<noteq> []" and "db" and "transactionId < length txCol"
    and "learnerKeyword h transactions rules transactionId newCategory = Some kw"
  shows "snd (fst (handleCategoryChange h db (Some u) transactions rules transactionId
                     newCategory (txCol, ruleCol)))
         = upsertRule u kw newCategory ruleCol"
  using assms
  by (simp add: handleCategoryChange_def startCategoryChange_def updateCategory_def
      finish_Query)

lemma handleCategoryChange_rules:
  "snd (fst (handleCategoryChange h db uid transactions rules transactionId newCategory
               (txCol, ruleCol))) = ruleCol
   \<or> (\<exists>u kw. snd (fst (handleCategoryChange h db uid transactions rules transactionId
                          newCategory (txCol, ruleCol)))
              = upsertRule u kw newCategory ruleCol)"
  by (auto simp: handleCategoryChange_def startCategoryChange_def finish_Query
      split: option.splits)

text \<open>
  C7, as stated: every invocation of the learner keeps at most one rule for every owner
  and keyword. The handler waits between its query for the rule (line 256) and its write
  (line 259), and nothing keeps a second invocation out: when two changes for
  transactions with the keyword \<open>shell gas\<close> are under way together, both queries find
  no rule and both handlers add one.
\<close>

theorem overlapping_changes_counterexample:
  "oneRulePerKeyword []
   \<and> (let page = [(0, \<lparr>date = ''2024-01-05'', description = ''Shell Gas Station'',
                        amount = Fin (- 4) 1, category = ''Uncategorized'',
                        originalRow = [], userId = ''u1''\<rparr>),
                   (1, \<lparr>date = ''2024-01-09'', description = ''Shell Gas Plaza'',
                        amount = Fin (- 35) 0, category = ''Uncategorized'',
                        originalRow = [], userId = ''u1''\<rparr>)];
           (a1, s1) = startCategoryChange asciiHost True (Some ''u1'') page [] 0 ''Auto''
                        (map snd page, []);
           (b1, s2) = startCategoryChange asciiHost True (Some ''u1'') page [] 1 ''Auto'' s1;
           (a2, s3) = resume a1 s2;
           (b2, s4) = resume b1 s3;
           (a3, s5) = resume a2 s4;
           (b3, s6) = resume b2 s5
       in a3 = Done (Some CategoryUpdated) \<and> b3 = Done (Some CategoryUpdated)
          \<and> snd s6 = [\<lparr>keyword = ''shell gas'', ruleCategory = ''Auto'', ruleUserId = ''u1''\<rparr>,
                      \<lparr>keyword = ''shell gas'', ruleCategory = ''Auto'', ruleUserId = ''u1''\<rparr>])
   \<and> \<not> oneRulePerKeyword
         [\<lparr>keyword = ''shell gas'', ruleCategory = ''Auto'', ruleUserId = ''u1''\<rparr>,
          \<lparr>keyword = ''shell gas'', ruleCategory = ''Auto'', ruleUserId = ''u1''\<rparr>]"
  by code_simp

text \<open>
  C7, amended: a rule collection with at most one rule for every owner and keyword is
  still one after an invocation of the learner that runs from its call to its end with no
  other request to the store in between. Such an invocation leaves the owner and keyword
  of every rule in place, or it appends one rule whose owner and keyword no stored rule
  has. When it goes on to the rules collection for a keyword and a rule of the owner for
  this keyword exists, it sets the category of that rule in place and changes nothing
  else; when none exists, it appends the rule.
\<close>

theorem learner_keeps_one_rule_per_keyword:
  assumes "oneRulePerKeyword ruleCol"
    and "handleCategoryChange h db uid transactions rules transactionId newCategory
           (txCol, ruleCol) = ((txCol', ruleCol'), msg)"
  shows "oneRulePerKeyword ruleCol'
         \<and> (map ruleKey ruleCol' = map ruleKey ruleCol
            \<or> (\<exists>r. ruleCol' = ruleCol @ [r] \<and> ruleKey r \<notin> set (map ruleKey ruleCol)))
         \<and> (\<forall>u kw. uid = Some u \<and> u \<noteq> [] \<and> db \<and> transactionId < length txCol
                   \<and> learnerKeyword h transactions rules transactionId newCategory = Some kw
               \<longrightarrow> (\<forall>i. i < length ruleCol \<and> ruleKey (ruleCol ! i) = (u, kw) \<longrightarrow>
                         ruleCol' = ruleCol[i := (ruleCol ! i)\<lparr>ruleCategory := newCategory\<rparr>])
                   \<and> ((u, kw) \<notin> set (map ruleKey ruleCol) \<longrightarrow>
                         ruleCol' = ruleCol @ [\<lparr>keyword = kw, ruleCategory = newCategory,
                                                 ruleUserId = u\<rparr>]))"
proof -
  from assms(2) have r: "ruleCol' = snd (fst (handleCategoryChange h db uid transactions rules
      transactionId newCategory (txCol, ruleCol)))"
    by simp
  have keys: "map ruleKey ruleCol' = map ruleKey ruleCol
         \<or> (\<exists>r. ruleCol' = ruleCol @ [r] \<and> ruleKey r \<notin> set (map ruleKey ruleCol))"
  proof -
    from handleCategoryChange_rules [of h db uid transactions rules transactionId newCategory
        txCol ruleCol]
    consider "ruleCol' = ruleCol" | u kw where "ruleCol' = upsertRule u kw newCategory ruleCol"
      unfolding r by blast
    then show ?thesis
    proof cases
      case 1
      then show ?thesis by simp
    next
      case 2
      then show ?thesis
        using upsertRule_keys [of u kw newCategory ruleCol] by simp
    qed
  qed
  from assms(1) have d: "distinct (map ruleKey ruleCol)"
    by (simp add: oneRulePerKeyword_def)
  with keys have "distinct (map ruleKey ruleCol')"
    by auto
  then have inv: "oneRulePerKeyword ruleCol'"
    by (simp add: oneRulePerKeyword_def)
  have learns: "(\<forall>i. i < length ruleCol \<and> ruleKey (ruleCol ! i) = (u, kw) \<longrightarrow>
                    ruleCol' = ruleCol[i := (ruleCol ! i)\<lparr>ruleCategory := newCategory\<rparr>])
                \<and> ((u, kw) \<notin> set (map ruleKey ruleCol) \<longrightarrow>
                    ruleCol' = ruleCol @ [\<lparr>keyword = kw, ruleCategory = newCategory,
                                            ruleUserId = u\<rparr>])"
    if "uid = Some u" "u \<noteq> []" "db" "transactionId < length txCol"
      "learnerKeyword h transactions rules transactionId newCategory = Some kw" for u kw
  proof -
    from that have "ruleCol' = upsertRule u kw newCategory ruleCol"
      unfolding r by (simp add: handleCategoryChange_learns)
    with d show ?thesis
      by (simp add: upsertRule_in_place upsertRule_new)
  qed
  from inv keys learns show ?thesis
    by blast
qed

theorem learner_keeps_one_rule_per_keyword_witness:
  "oneRulePerKeyword
     [\<lparr>keyword = ''amazon'', ruleCategory = ''Shopping'', ruleUserId = ''u1''\<rparr>,
      \<lparr>keyword = ''shell gas'', ruleCategory = ''Fuel'', ruleUserId = ''u1''\<rparr>]
   \<and> learnerKeyword asciiHost
        [(0, \<lparr>date = ''2024-01-05'', description = ''Shell Gas Station'', amount = Fin (- 4) 1,
              category = ''Fuel'', originalRow = [], userId = ''u1''\<rparr>)]
        [(''amazon'', ''Shopping''), (''shell gas'', ''Fuel'')] 0 ''Auto'' = Some ''shell gas''
   \<and> handleCategoryChange asciiHost True (Some ''u1'')
        [(0, \<lparr>date = ''2024-01-05'', description = ''Shell Gas Station'', amount = Fin (- 4) 1,
              category = ''Fuel'', originalRow = [], userId = ''u1''\<rparr>)]
        [(''amazon'', ''Shopping''), (''shell gas'', ''Fuel'')] 0 ''Auto''
        ([\<lparr>date = ''2024-01-05'', description = ''Shell Gas Station'', amount = Fin (- 4) 1,
            category = ''Fuel'', originalRow = [], userId = ''u1''\<rparr>],
         [\<lparr>keyword = ''amazon'', ruleCategory = ''Shopping'', ruleUserId = ''u1''\<rparr>,
          \<lparr>keyword = ''shell gas'', ruleCategory = ''Fuel'', ruleUserId = ''u1''\<rparr>])
      = (([\<lparr>date = ''2024-01-05'', description = ''Shell Gas Station'', amount = Fin (- 4) 1,
             category = ''Auto'', originalRow = [], userId = ''u1''\<rparr>],
          [\<lparr>keyword = ''amazon'', ruleCategory = ''Shopping'', ruleUserId = ''u1''\<rparr>,
           \<lparr>keyword = ''shell gas'', ruleCategory = ''Auto'', ruleUserId = ''u1''\<rparr>]),
         Some CategoryUpdated)
   \<and> oneRulePerKeyword
       [\<lparr>keyword = ''amazon'', ruleCategory = ''Shopping'', ruleUserId = ''u1''\<rparr>,
        \<lparr>keyword = ''shell gas'', ruleCategory = ''Auto'', ruleUserId = ''u1''\<rparr>]"
proof -
  have a: "oneRulePerKeyword
     [\<lparr>keyword = ''amazon'', ruleCategory = ''Shopping'', ruleUserId = ''u1''\<rparr>,
      \<lparr>keyword = ''shell gas'', ruleCategory = ''Fuel'', ruleUserId = ''u1''\<rparr>]"
    by code_simp
  have k: "learnerKeyword asciiHost
        [(0, \<lparr>date = ''2024-01-05'', description = ''Shell Gas Station'', amount = Fin (- 4) 1,
              category = ''Fuel'', originalRow = [], userId = ''u1''\<rparr>)]
        [(''amazon'', ''Shopping''), (''shell gas'', ''Fuel'')] 0 ''Auto'' = Some ''shell gas''"
    by code_simp
  have b: "handleCategoryChange asciiHost True (Some ''u1'')
        [(0, \<lparr>date = ''2024-01-05'', description = ''Shell Gas Station'', amount = Fin (- 4) 1,
              category = ''Fuel'', originalRow = [], userId = ''u1''\<rparr>)]
        [(''amazon'', ''Shopping''), (''shell gas'', ''Fuel'')] 0 ''Auto''
        ([\<lparr>date = ''2024-01-05'', description = ''Shell Gas Station'', amount = Fin (- 4) 1,
            category = ''Fuel'', originalRow = [], userId = ''u1''\<rparr>],
         [\<lparr>keyword = ''amazon'', ruleCategory = ''Shopping'', ruleUserId = ''u1''\<rparr>,
          \<lparr>keyword = ''shell gas'', ruleCategory = ''Fuel'', ruleUserId = ''u1''\<rparr>])
      = (([\<lparr>date = ''2024-01-05'', description = ''Shell Gas Station'', amount = Fin (- 4) 1,
             category = ''Auto'', originalRow = [], userId = ''u1''\<rparr>],
          [\<lparr>keyword = ''amazon'', ruleCategory = ''Shopping'', ruleUserId = ''u1''\<rparr>,
           \<lparr>keyword = ''shell gas'', ruleCategory = ''Auto'', ruleUserId = ''u1''\<rparr>]),
         Some CategoryUpdated)"
    by code_simp
  from learner_keeps_one_rule_per_keyword [OF a b] a k b show ?thesis
    by simp
qed

section \<open>Categories\<close>

text \<open>
  C8: for a signed-in user with the store at hand, adding a category leaves the stored
  categories as they are, with the message of a rejection, when the name is blank after
  trimming or equals, up to letter case, the name of a category of the page's list;
  otherwise the trimmed name is added.
\<close>

theorem add_category_rejected_iff:
  assumes "u \<noteq> []"
  shows "(let r = handleAddCategory h True (Some u) categories newCategoryName col;
              rejected = (trim h newCategoryName = []
                          \<or> (\<exists>cat \<in> set categories.
                                toLowerCase h (name cat)
                                = toLowerCase h (trim h newCategoryName)))
          in (rejected \<longrightarrow> fst r = col \<and> snd r \<in> {CategoryEmpty, CategoryExists})
             \<and> (\<not> rejected \<longrightarrow>
                  r = (col @ [\<lparr>name = trim h newCategoryName, catUserId = u\<rparr>], CategoryAdded)))"
  using assms by (simp add: handleAddCategory_def list_ex_iff Let_def)

theorem add_category_rejected_iff_witness:
  "''u1'' \<noteq> []
   \<and> toLowerCase asciiHost ''Groceries'' = toLowerCase asciiHost (trim asciiHost '' groceries '')
   \<and> fst (handleAddCategory asciiHost True (Some ''u1'')
             [\<lparr>name = ''Groceries'', catUserId = ''u1''\<rparr>]
             '' groceries '' [\<lparr>name = ''Groceries'', catUserId = ''u1''\<rparr>])
       = [\<lparr>name = ''Groceries'', catUserId = ''u1''\<rparr>]
   \<and> handleAddCategory asciiHost True (Some ''u1'')
         [\<lparr>name = ''Groceries'', catUserId = ''u1''\<rparr>]
         '' Auto '' [\<lparr>name = ''Groceries'', catUserId = ''u1''\<rparr>]
       = ([\<lparr>name = ''Groceries'', catUserId = ''u1''\<rparr>, \<lparr>name = ''Auto'', catUserId = ''u1''\<rparr>],
          CategoryAdded)"
proof -
  have a: "''u1'' \<noteq> []" by simp
  have b: "toLowerCase asciiHost ''Groceries''
           = toLowerCase asciiHost (trim asciiHost '' groceries '')"
    by code_simp
  have c: "trim asciiHost '' Auto '' = ''Auto''" by code_simp
  have d: "toLowerCase asciiHost ''Groceries'' \<noteq> toLowerCase asciiHost ''Auto''" by code_simp
  from add_category_rejected_iff [OF a, of asciiHost
      "[\<lparr>name = ''Groceries'', catUserId = ''u1''\<rparr>]"
      "'' groceries ''" "[\<lparr>name = ''Groceries'', catUserId = ''u1''\<rparr>]"]
    add_category_rejected_iff [OF a, of asciiHost
      "[\<lparr>name = ''Groceries'', catUserId = ''u1''\<rparr>]"
      "'' Auto ''" "[\<lparr>name = ''Groceries'', catUserId = ''u1''\<rparr>]"] b c d
  show ?thesis by (simp add: Let_def)
qed

end
